theory Spec2Isabelle
  imports Main
begin

section \<open>Data model of the custodial keyring\<close>

text \<open>
  The records follow the TypeScript types used by \<^verbatim>\<open>CustodialKeyring\<close> (keyring.ts).
  The field \<^verbatim>\<open>id\<close> of an account is called \<open>acct_id\<close> and its field \<^verbatim>\<open>type\<close> is called
  \<open>account_type\<close>, since \<open>id\<close> is the identity function of HOL; where two TypeScript
  types share a field name, the later record carries a prefix.
\<close>

datatype CustodianType = ECA1 | ECA3 | BitGo | Cactus

record custodian_options =
  environmentName :: string
  displayName :: string
  deferPublication :: bool
  importOrigin :: string

record account_options =
  custodian :: custodian_options
  accountName :: "string option"

record CustodialKeyringAccount =
  acct_id :: string
  address :: string
  methods :: "string list"
  options :: account_options
  account_type :: string

record OnBoardingRpcRequest =
  token :: string
  custodianApiUrl :: string
  custodianType :: CustodianType
  refreshTokenUrl :: string
  custodianEnvironment :: string
  custodianDisplayName :: string

record Wallet =
  account :: CustodialKeyringAccount
  details :: OnBoardingRpcRequest

record CreateAccountOptions =
  ca_address :: string
  ca_name :: "string option"
  ca_details :: OnBoardingRpcRequest
  ca_origin :: string

record IRefreshTokenChangeEvent =
  apiUrl :: string
  oldRefreshToken :: string
  newRefreshToken :: string

text \<open>The three fields of a \<^verbatim>\<open>CustodianMetadata\<close> entry that \<^verbatim>\<open>createAccount\<close> reads.\<close>

record CustodianMetadata =
  md_apiBaseUrl :: string
  md_name :: string
  md_custodianPublishesTransaction :: bool

text \<open>
  A custodian API object as \<^verbatim>\<open>#getCustodianApi\<close> constructs it:
  \<^verbatim>\<open>new CustodianApiClass({refreshToken, refreshTokenUrl}, custodianApiUrl, 1000)\<close>,
  the class chosen by \<^verbatim>\<open>details.custodianType\<close>.
\<close>

record CustodianApi =
  api_class :: CustodianType
  api_refreshToken :: string
  api_refreshTokenUrl :: string
  api_custodianApiUrl :: string
  api_third_argument :: nat

text \<open>Keyring requests and the records the request manager keeps of them.\<close>

record EthSignTransactionRequest =
  tx_from :: string
  tx_chainId :: string
  tx_fields :: string

datatype Json =
    JString string
  | JTransaction EthSignTransactionRequest
  | JTypedMessage string
  | JNull

record JsonRpcCall =
  rpc_method :: string
  rpc_params :: "Json list option"

record KeyringRequest =
  req_id :: string
  req_scope :: string
  req_account :: string
  request :: JsonRpcCall

record SignedMessageDetails =
  details_id :: string
  details_status :: string

record CustodianTransaction =
  custodianTransactionId :: string
  transactionStatus :: string

record CustodialSnapRequest =
  keyringRequest :: KeyringRequest
  request_type :: string
  subType :: "string option"
  fulfilled :: bool
  rejected :: bool
  message_details :: "SignedMessageDetails option"
  signature :: "string option"
  lastUpdated :: int
  transaction_details :: "CustodianTransaction option"

record CustodianDeepLink =
  link_text :: string
  link_id :: string
  link_url :: string
  link_action :: string

datatype SubmitRequestResponse = Pending | Resolved Json

text \<open>
  A JavaScript \<^verbatim>\<open>Error\<close> is a value of \<open>error\<close>; each constructor stands for one message
  of keyring.ts (or of a library it calls) and carries what the message interpolates.
  \<open>Thrown\<close> is an error a collaborator raised, with its message.
\<close>

datatype error =
    AccountNotFound string
  | MethodNotSupportedForAccount string string
  | EvmMethodNotSupported string
  | WalletDoesNotExist string
  | NoCustodianAllowlisted string
  | AddressAlreadyInUse string
  | RequestNotFound string
  | MethodNotImplemented
  | FailedToSignTransaction error
  | NotAHexString
  | TypeError
  | Thrown string

text \<open>What the keyring does to the world outside it: the calls it makes on custodian
  API objects (each names the object by its reference) and the keyring events it emits.\<close>

datatype custodian_call =
    SignPersonalMessage nat string "Json option"
  | SignTypedData nat string "Json option" string
  | CreateTransaction nat string string bool
  | GetTransactionLink nat string
  | GetSignedMessageLink nat string

datatype keyring_event =
    AccountCreated CustodialKeyringAccount string
  | AccountDeleted string

text \<open>
  The state the keyring works on. \<open>wallets\<close> is what the state manager holds and
  \<open>requests\<close> what the request manager holds. \<open>custodianApi\<close> is the private
  \<^verbatim>\<open>Map<string, ICustodianApi>\<close>; its values are references into \<open>heap\<close>, the list of all
  API objects constructed so far, so that two look-ups return the same object exactly when
  they return the same reference. \<open>calls\<close>, \<open>emitted\<close> and \<open>rendered\<close> record, in order,
  the custodian calls made, the keyring events emitted and the info messages rendered.
\<close>

record keyring =
  wallets :: "Wallet list"
  requests :: "CustodialSnapRequest list"
  custodianApi :: "string \<rightharpoonup> nat"
  heap :: "CustodianApi list"
  calls :: "custodian_call list"
  emitted :: "keyring_event list"
  rendered :: "string list"

text \<open>
  What the keyring reads from outside: \<^verbatim>\<open>config.dev\<close>, the clock, \<^verbatim>\<open>uuid()\<close>, the custodian
  allow-list, the Keccak-256 digest used by \<^verbatim>\<open>toChecksumAddress\<close> (as a list of hexadecimal
  digits), the answer of the snap keyring to an emitted event (\<open>None\<close>: accepted,
  \<open>Some m\<close>: rejected with message \<open>m\<close>), what \<^verbatim>\<open>runSensitive\<close> makes of an error, and the
  answers of the custodian (\<open>Inl m\<close>: the call throws with message \<open>m\<close>).
\<close>

record world =
  dev :: bool
  now :: int
  uuid :: string
  custodianMetadata :: "CustodianMetadata list"
  keccak256 :: "string \<Rightarrow> nat list"
  emitSnapKeyringEvent :: "keyring_event \<Rightarrow> string option"
  runSensitive :: "error \<Rightarrow> error"
  signPersonalMessage :: "nat \<Rightarrow> string \<Rightarrow> Json option \<Rightarrow> string + SignedMessageDetails"
  signTypedData :: "nat \<Rightarrow> string \<Rightarrow> Json option \<Rightarrow> string \<Rightarrow> string + SignedMessageDetails"
  createTransactionPayload :: "EthSignTransactionRequest \<Rightarrow> string + string"
  createTransaction :: "nat \<Rightarrow> string \<Rightarrow> string \<Rightarrow> bool \<Rightarrow> string + CustodianTransaction"
  getTransactionLink :: "nat \<Rightarrow> string \<Rightarrow> string + CustodianDeepLink"
  getSignedMessageLink :: "nat \<Rightarrow> string \<Rightarrow> string + CustodianDeepLink"

section \<open>Address normalisation\<close>

text \<open>
  \<^verbatim>\<open>toChecksumAddress\<close> is imported from the library @ethereumjs/util. It is written out
  here as EIP-55 defines it: the argument must match \<^verbatim>\<open>/^0x[0-9A-Fa-f]*$/\<close> (otherwise the
  call throws), the prefix is stripped, the digits are put in lower case and hashed, and
  the \<open>i\<close>-th digit is put in upper case when the \<open>i\<close>-th hexadecimal digit of the hash is
  at least 8. The hash is the parameter \<open>digest\<close>.
\<close>

definition isHexString :: "string \<Rightarrow> bool" where
  "isHexString s =
     (case s of
        a # b # rest \<Rightarrow> a = CHR ''0'' \<and> b = CHR ''x'' \<and>
                        list_all (\<lambda>c. c \<in> set ''0123456789abcdefABCDEF'') rest
      | _ \<Rightarrow> False)"

definition stripHexPrefix :: "string \<Rightarrow> string" where
  "stripHexPrefix s =
     (case s of
        a # b # rest \<Rightarrow> if a = CHR ''0'' \<and> b = CHR ''x'' then rest else s
      | _ \<Rightarrow> s)"

definition toLowerCase_char :: "char \<Rightarrow> char" where
  "toLowerCase_char c =
     (case map_of (zip ''ABCDEFGHIJKLMNOPQRSTUVWXYZ'' ''abcdefghijklmnopqrstuvwxyz'') c of
        None \<Rightarrow> c | Some d \<Rightarrow> d)"

definition toUpperCase_char :: "char \<Rightarrow> char" where
  "toUpperCase_char c =
     (case map_of (zip ''abcdefghijklmnopqrstuvwxyz'' ''ABCDEFGHIJKLMNOPQRSTUVWXYZ'') c of
        None \<Rightarrow> c | Some d \<Rightarrow> d)"

definition toLowerCase :: "string \<Rightarrow> string" where
  "toLowerCase s = map toLowerCase_char s"

fun checksumDigits :: "string \<Rightarrow> nat list \<Rightarrow> string" where
  "checksumDigits [] hash = []"
| "checksumDigits (c # cs) hash =
     (if (case hash of [] \<Rightarrow> False | h # _ \<Rightarrow> 8 \<le> h) then toUpperCase_char c else c)
       # checksumDigits cs (tl hash)"

definition toChecksumAddress :: "(string \<Rightarrow> nat list) \<Rightarrow> string \<Rightarrow> error + string" where
  "toChecksumAddress digest hexAddress =
     (if \<not> isHexString hexAddress then Inl NotAHexString
      else let addr = toLowerCase (stripHexPrefix hexAddress);
               hash = digest addr
           in Inr (''0x'' @ checksumDigits addr hash))"

section \<open>The state manager and the request manager\<close>

text \<open>
  Modelled from the spec: the class \<^verbatim>\<open>KeyringStateManager\<close> (stateManagement.ts) is not among
  the sources. Its operations are \<^verbatim>\<open>listWallets()\<close>, \<^verbatim>\<open>getWalletByAddress(addr)\<close>,
  \<^verbatim>\<open>getAccount(id)\<close>, \<^verbatim>\<open>addWallet({account, details})\<close> and
  \<^verbatim>\<open>updateWalletDetails(accountId, details)\<close>; a wallet is found by the address or by the
  account id it was stored with.
\<close>

definition listWallets :: "keyring \<Rightarrow> Wallet list" where
  "listWallets st = wallets st"

definition getWalletByAddress :: "keyring \<Rightarrow> string \<Rightarrow> Wallet option" where
  "getWalletByAddress st addr = find (\<lambda>wallet. address (account wallet) = addr) (wallets st)"

definition getAccount :: "keyring \<Rightarrow> string \<Rightarrow> CustodialKeyringAccount option" where
  "getAccount st i = map_option account (find (\<lambda>wallet. acct_id (account wallet) = i) (wallets st))"

definition addWallet :: "Wallet \<Rightarrow> keyring \<Rightarrow> keyring" where
  "addWallet wallet st = st\<lparr>wallets := wallets st @ [wallet]\<rparr>"

definition updateWalletDetails :: "string \<Rightarrow> OnBoardingRpcRequest \<Rightarrow> keyring \<Rightarrow> keyring" where
  "updateWalletDetails i d st =
     st\<lparr>wallets := map (\<lambda>wallet. if acct_id (account wallet) = i then wallet\<lparr>details := d\<rparr> else wallet)
                       (wallets st)\<rparr>"

text \<open>
  Modelled from the spec: the request manager behind \<^verbatim>\<open>RequestManagerFacade\<close> is not among
  the sources. \<^verbatim>\<open>upsertRequest(record)\<close> stores the record under the id of its keyring
  request, in place of an older record with that id if there is one, and
  \<^verbatim>\<open>listRequests()\<close> returns the stored records.
\<close>

definition upsertRequest :: "CustodialSnapRequest \<Rightarrow> keyring \<Rightarrow> keyring" where
  "upsertRequest r st =
     (if list_ex (\<lambda>q. req_id (keyringRequest q) = req_id (keyringRequest r)) (requests st)
      then st\<lparr>requests := map (\<lambda>q. if req_id (keyringRequest q) = req_id (keyringRequest r) then r else q)
                                (requests st)\<rparr>
      else st\<lparr>requests := requests st @ [r]\<rparr>)"

text \<open>
  Modelled from the spec: \<^verbatim>\<open>isUniqueAddress\<close> (util/is-unique-address.ts) is not among the
  sources; an address is unique when no stored wallet has it.
\<close>

definition isUniqueAddress :: "string \<Rightarrow> Wallet list \<Rightarrow> bool" where
  "isUniqueAddress addr ws = (addr \<notin> set (map (\<lambda>wallet. address (account wallet)) ws))"

section \<open>The keyring\<close>

subsection \<open>The registry of custodian API objects\<close>

definition newCustodianApi :: "OnBoardingRpcRequest \<Rightarrow> CustodianApi" where
  "newCustodianApi d =
     \<lparr>api_class = custodianType d, api_refreshToken = token d,
      api_refreshTokenUrl = refreshTokenUrl d, api_custodianApiUrl = custodianApiUrl d,
      api_third_argument = 1000\<rparr>"

text \<open>
  \<^verbatim>\<open>getCustodianApiForAddress\<close>: the address is normalised; on a miss the wallet stored
  under the normalised address is loaded, an API object is constructed from its details
  and stored under the normalised address; the object stored there is returned.
\<close>

definition getCustodianApiForAddress :: "world \<Rightarrow> string \<Rightarrow> keyring \<Rightarrow> (error + nat) \<times> keyring" where
  "getCustodianApiForAddress W addr st =
     (case toChecksumAddress (keccak256 W) addr of
        Inl e \<Rightarrow> (Inl e, st)
      | Inr checksumAddress \<Rightarrow>
          (case custodianApi st checksumAddress of
             Some api \<Rightarrow> (Inr api, st)
           | None \<Rightarrow>
               (case getWalletByAddress st checksumAddress of
                  None \<Rightarrow> (Inl (WalletDoesNotExist addr), st)
                | Some wallet \<Rightarrow>
                    (Inr (length (heap st)),
                     st\<lparr>heap := heap st @ [newCustodianApi (details wallet)],
                        custodianApi := (custodianApi st)(checksumAddress \<mapsto> length (heap st))\<rparr>))))"

subsection \<open>The token-changed handler\<close>

text \<open>
  \<^verbatim>\<open>#handleTokenChangedEvent\<close>: the wallets are listed once and filtered by the old token
  and the API URL; for each of them the cache entry under \<^verbatim>\<open>wallet.account.address\<close> is
  deleted and the details with the new token are written under \<^verbatim>\<open>wallet.account.id\<close>.
\<close>

definition tokenMatches :: "IRefreshTokenChangeEvent \<Rightarrow> Wallet \<Rightarrow> bool" where
  "tokenMatches payload wallet \<longleftrightarrow>
     token (details wallet) = oldRefreshToken payload \<and>
     custodianApiUrl (details wallet) = apiUrl payload"

definition updateOneWallet :: "IRefreshTokenChangeEvent \<Rightarrow> Wallet \<Rightarrow> keyring \<Rightarrow> keyring" where
  "updateOneWallet payload wallet st =
     (let updatedDetails = (details wallet)\<lparr>token := newRefreshToken payload\<rparr>;
          st1 = st\<lparr>custodianApi := (custodianApi st)(address (account wallet) := None)\<rparr>
      in updateWalletDetails (acct_id (account wallet)) updatedDetails st1)"

definition handleTokenChangedEvent :: "IRefreshTokenChangeEvent \<Rightarrow> keyring \<Rightarrow> keyring" where
  "handleTokenChangedEvent payload st =
     (let walletsToUpdate = filter (tokenMatches payload) (listWallets st)
      in fold (updateOneWallet payload) walletsToUpdate st)"

text \<open>What a wallet looks like once its token has been rotated.\<close>

definition rotated :: "IRefreshTokenChangeEvent \<Rightarrow> Wallet \<Rightarrow> Wallet" where
  "rotated payload wallet = wallet\<lparr>details := (details wallet)\<lparr>token := newRefreshToken payload\<rparr>\<rparr>"

subsection \<open>Creating an account\<close>

definition EthMethod_PersonalSign :: string where
  "EthMethod_PersonalSign = ''personal_sign''"

definition EthMethod_SignTransaction :: string where
  "EthMethod_SignTransaction = ''eth_signTransaction''"

definition EthMethod_SignTypedDataV3 :: string where
  "EthMethod_SignTypedDataV3 = ''eth_signTypedData_v3''"

definition EthMethod_SignTypedDataV4 :: string where
  "EthMethod_SignTypedDataV4 = ''eth_signTypedData_v4''"

definition newAccount :: "world \<Rightarrow> CreateAccountOptions \<Rightarrow> string \<Rightarrow> bool \<Rightarrow> CustodialKeyringAccount" where
  "newAccount W opts custodianEnvironmentName defer =
     \<lparr>acct_id = uuid W,
      address = ca_address opts,
      methods = [EthMethod_SignTransaction, EthMethod_PersonalSign,
                 EthMethod_SignTypedDataV3, EthMethod_SignTypedDataV4],
      options = \<lparr>custodian = \<lparr>environmentName = custodianEnvironmentName,
                               displayName = custodianDisplayName (ca_details opts),
                               deferPublication = defer,
                               importOrigin = ca_origin opts\<rparr>,
                 accountName = ca_name opts\<rparr>,
      account_type = ''eip155:eoa''\<rparr>"

text \<open>
  \<^verbatim>\<open>createAccount\<close>. The input is typed, so the assertion of its shape is not modelled.
  The allow-list is searched by API URL. In dev mode the environment name of the request
  is taken; otherwise the name of the allow-list entry, and an unlisted URL is an error. A
  stored wallet with the same address is an error. Then the \<^verbatim>\<open>AccountCreated\<close> event is
  emitted, and only when the snap keyring accepts it the wallet is added; the
  \<^verbatim>\<open>catch\<close> rethrows the message it caught.
\<close>

definition createAccount ::
  "world \<Rightarrow> CreateAccountOptions \<Rightarrow> keyring \<Rightarrow> (error + CustodialKeyringAccount) \<times> keyring" where
  "createAccount W opts st =
     (let found = find (\<lambda>item. md_apiBaseUrl item = custodianApiUrl (ca_details opts))
                       (custodianMetadata W)
      in case (if dev W then Some (custodianEnvironment (ca_details opts))
               else map_option md_name found) of
           None \<Rightarrow> (Inl (NoCustodianAllowlisted (custodianApiUrl (ca_details opts))), st)
         | Some custodianEnvironmentName \<Rightarrow>
             if \<not> isUniqueAddress (ca_address opts) (listWallets st)
             then (Inl (AddressAlreadyInUse (ca_address opts)), st)
             else
               let defer = (case found of Some item \<Rightarrow> md_custodianPublishesTransaction item
                                         | None \<Rightarrow> False);
                   acct = newAccount W opts custodianEnvironmentName defer;
                   ev = AccountCreated acct (case ca_name opts of Some n \<Rightarrow> n
                                                                | None \<Rightarrow> ''Custodial Account'');
                   st1 = st\<lparr>emitted := emitted st @ [ev]\<rparr>
               in (case emitSnapKeyringEvent W ev of
                     Some m \<Rightarrow> (Inl (Thrown m), st1)
                   | None \<Rightarrow> (Inr acct, addWallet \<lparr>account = acct, details = ca_details opts\<rparr> st1)))"

subsection \<open>Listing requests\<close>

definition listRequests :: "world \<Rightarrow> keyring \<Rightarrow> KeyringRequest list" where
  "listRequests W st = (if dev W then map keyringRequest (requests st) else [])"

definition getRequest :: "world \<Rightarrow> string \<Rightarrow> keyring \<Rightarrow> error + KeyringRequest" where
  "getRequest W i st =
     (if dev W
      then (case find (\<lambda>req. req_id (keyringRequest req) = i) (requests st) of
              None \<Rightarrow> Inl (RequestNotFound i)
            | Some req \<Rightarrow> Inr (keyringRequest req))
      else Inl MethodNotImplemented)"

subsection \<open>Submitting a request\<close>

text \<open>The \<open>i\<close>-th element of the parameter array; \<open>None\<close> stands for \<^verbatim>\<open>undefined\<close>.\<close>

definition param :: "Json list \<Rightarrow> nat \<Rightarrow> Json option" where
  "param ps i = (if i < length ps then Some (ps ! i) else None)"

definition messageRequest ::
  "world \<Rightarrow> KeyringRequest \<Rightarrow> string \<Rightarrow> SignedMessageDetails \<Rightarrow> CustodialSnapRequest" where
  "messageRequest W kr sub d =
     \<lparr>keyringRequest = kr, request_type = ''message'', subType = Some sub,
      fulfilled = False, rejected = False, message_details = Some d, signature = None,
      lastUpdated = now W, transaction_details = None\<rparr>"

definition transactionRequest ::
  "world \<Rightarrow> KeyringRequest \<Rightarrow> CustodianTransaction \<Rightarrow> CustodialSnapRequest" where
  "transactionRequest W kr t =
     \<lparr>keyringRequest = kr, request_type = ''transaction'', subType = None,
      fulfilled = False, rejected = False, message_details = None, signature = None,
      lastUpdated = now W, transaction_details = Some t\<rparr>"

text \<open>
  The case \<^verbatim>\<open>EthMethod.PersonalSign\<close> of \<^verbatim>\<open>#handleSigningRequest\<close>:
  \<^verbatim>\<open>[message, from] = params\<close>; \<^verbatim>\<open>toChecksumAddress\<close> throws unless \<^verbatim>\<open>from\<close> is a string.
\<close>

definition personalSign :: "world \<Rightarrow> Json list \<Rightarrow> KeyringRequest \<Rightarrow> keyring \<Rightarrow> (error + string) \<times> keyring" where
  "personalSign W ps kr st =
     (case param ps 1 of
        Some (JString from) \<Rightarrow>
          (case getCustodianApiForAddress W from st of
             (Inl e, st1) \<Rightarrow> (Inl e, st1)
           | (Inr api, st1) \<Rightarrow>
               let st2 = st1\<lparr>calls := calls st1 @ [SignPersonalMessage api from (param ps 0)]\<rparr>
               in (case signPersonalMessage W api from (param ps 0) of
                     Inl m \<Rightarrow> (Inl (Thrown m), st2)
                   | Inr d \<Rightarrow> (Inr (details_id d),
                               upsertRequest (messageRequest W kr ''personalSign'' d) st2)))
      | _ \<Rightarrow> (Inl NotAHexString, st))"

text \<open>
  The cases \<^verbatim>\<open>EthMethod.SignTypedDataV3\<close> and \<^verbatim>\<open>EthMethod.SignTypedDataV4\<close>:
  \<^verbatim>\<open>[from, data] = params\<close>; they differ in the version and the sub-type only.
\<close>

definition signTypedDataCase ::
  "world \<Rightarrow> string \<Rightarrow> string \<Rightarrow> Json list \<Rightarrow> KeyringRequest \<Rightarrow> keyring \<Rightarrow> (error + string) \<times> keyring" where
  "signTypedDataCase W version sub ps kr st =
     (case param ps 0 of
        Some (JString from) \<Rightarrow>
          (case getCustodianApiForAddress W from st of
             (Inl e, st1) \<Rightarrow> (Inl e, st1)
           | (Inr api, st1) \<Rightarrow>
               let st2 = st1\<lparr>calls := calls st1 @ [SignTypedData api from (param ps 1) version]\<rparr>
               in (case signTypedData W api from (param ps 1) version of
                     Inl m \<Rightarrow> (Inl (Thrown m), st2)
                   | Inr d \<Rightarrow> (Inr (details_id d), upsertRequest (messageRequest W kr sub d) st2)))
      | _ \<Rightarrow> (Inl NotAHexString, st))"

text \<open>
  \<^verbatim>\<open>#signTransaction\<close>: everything happens inside a \<^verbatim>\<open>try\<close> whose \<^verbatim>\<open>catch\<close> wraps the error.
  The wallet is looked up under \<^verbatim>\<open>tx.from\<close> as given. Reading \<^verbatim>\<open>from\<close> off a missing or
  null transaction is a type error; a value without that field has no hex address.
\<close>

definition signTransaction :: "world \<Rightarrow> Json option \<Rightarrow> KeyringRequest \<Rightarrow> keyring \<Rightarrow> (error + string) \<times> keyring" where
  "signTransaction W tx0 kr st =
     (case tx0 of
        Some (JTransaction tx) \<Rightarrow>
          (case getCustodianApiForAddress W (tx_from tx) st of
             (Inl e, st1) \<Rightarrow> (Inl (FailedToSignTransaction e), st1)
           | (Inr api, st1) \<Rightarrow>
               (case createTransactionPayload W tx of
                  Inl m \<Rightarrow> (Inl (FailedToSignTransaction (Thrown m)), st1)
                | Inr payload \<Rightarrow>
                    (case getWalletByAddress st1 (tx_from tx) of
                       None \<Rightarrow> (Inl (FailedToSignTransaction (AccountNotFound (tx_from tx))), st1)
                     | Some wallet \<Rightarrow>
                         let defer = deferPublication (custodian (options (account wallet)));
                             st2 = st1\<lparr>calls := calls st1 @
                                     [CreateTransaction api payload (tx_chainId tx) defer]\<rparr>
                         in (case createTransaction W api payload (tx_chainId tx) defer of
                               Inl m \<Rightarrow> (Inl (FailedToSignTransaction (Thrown m)), st2)
                             | Inr response \<Rightarrow>
                                 (Inr (custodianTransactionId response),
                                  upsertRequest (transactionRequest W kr response) st2)))))
      | Some (JString s) \<Rightarrow> (Inl (FailedToSignTransaction NotAHexString), st)
      | Some (JTypedMessage s) \<Rightarrow> (Inl (FailedToSignTransaction NotAHexString), st)
      | _ \<Rightarrow> (Inl (FailedToSignTransaction TypeError), st))"

text \<open>
  \<^verbatim>\<open>#handleSigningRequest\<close>: the account is resolved, the method is checked against the
  account's methods, and the \<^verbatim>\<open>switch\<close> dispatches in the order of its cases.
\<close>

definition handleSigningRequest ::
  "world \<Rightarrow> string \<Rightarrow> Json list \<Rightarrow> KeyringRequest \<Rightarrow> keyring \<Rightarrow> (error + string) \<times> keyring" where
  "handleSigningRequest W method ps kr st =
     (case getAccount st (req_account kr) of
        None \<Rightarrow> (Inl (AccountNotFound (req_account kr)), st)
      | Some acct \<Rightarrow>
          if method \<notin> set (methods acct)
          then (Inl (MethodNotSupportedForAccount method (address acct)), st)
          else if method = EthMethod_PersonalSign then personalSign W ps kr st
          else if method = EthMethod_SignTransaction then signTransaction W (param ps 0) kr st
          else if method = EthMethod_SignTypedDataV3
            then signTypedDataCase W ''V3'' ''v3'' ps kr st
          else if method = EthMethod_SignTypedDataV4
            then signTypedDataCase W ''V4'' ''v4'' ps kr st
          else (Inl (EvmMethodNotSupported method), st))"

definition fallbackDeepLink :: "string \<Rightarrow> CustodianDeepLink" where
  "fallbackDeepLink custodianId =
     \<lparr>link_text = ''Complete in Custodian App'', link_id = custodianId,
      link_url = [], link_action = ''view''\<rparr>"

text \<open>
  The \<^verbatim>\<open>try\<close> block of \<^verbatim>\<open>#asyncSubmitRequest\<close>: the API object is resolved and asked for the
  transaction link or the signed-message link; whatever throws inside, the
  \<^verbatim>\<open>catch\<close> puts the fallback link in its place.
\<close>

definition resolveDeepLink ::
  "world \<Rightarrow> string \<Rightarrow> string \<Rightarrow> string \<Rightarrow> keyring \<Rightarrow> CustodianDeepLink \<times> keyring" where
  "resolveDeepLink W method addr custodianId st =
     (case getCustodianApiForAddress W addr st of
        (Inl e, st1) \<Rightarrow> (fallbackDeepLink custodianId, st1)
      | (Inr api, st1) \<Rightarrow>
          if method = EthMethod_SignTransaction
          then (case getTransactionLink W api custodianId of
                  Inl m \<Rightarrow> fallbackDeepLink custodianId
                | Inr deepLink \<Rightarrow> deepLink,
                st1\<lparr>calls := calls st1 @ [GetTransactionLink api custodianId]\<rparr>)
          else (case getSignedMessageLink W api custodianId of
                  Inl m \<Rightarrow> fallbackDeepLink custodianId
                | Inr deepLink \<Rightarrow> deepLink,
                st1\<lparr>calls := calls st1 @ [GetSignedMessageLink api custodianId]\<rparr>))"

text \<open>
  Modelled from the spec: \<^verbatim>\<open>renderInfoMessage\<close> (features/info-message) is not among the
  sources; it is a fire-and-forget side effect of the rendering collaborator.
\<close>

definition renderInfoMessage :: "string \<Rightarrow> keyring \<Rightarrow> keyring" where
  "renderInfoMessage msg st = st\<lparr>rendered := rendered st @ [msg]\<rparr>"

definition asyncSubmitRequest ::
  "world \<Rightarrow> KeyringRequest \<Rightarrow> keyring \<Rightarrow> (error + SubmitRequestResponse) \<times> keyring" where
  "asyncSubmitRequest W kr st =
     (case handleSigningRequest W (rpc_method (request kr))
             (case rpc_params (request kr) of Some ps \<Rightarrow> ps | None \<Rightarrow> []) kr st of
        (Inl e, st1) \<Rightarrow> (Inl e, st1)
      | (Inr custodianId, st1) \<Rightarrow>
          (case getAccount st1 (req_account kr) of
             None \<Rightarrow> (Inl (AccountNotFound (req_account kr)), st1)
           | Some acct \<Rightarrow>
               (case resolveDeepLink W (rpc_method (request kr)) (address acct) custodianId st1 of
                  (deepLink, st2) \<Rightarrow>
                    (Inr Pending,
                     renderInfoMessage
                       (link_text deepLink @ '' Transaction ID: '' @ link_id deepLink) st2))))"

text \<open>
  \<^verbatim>\<open>submitRequest\<close>: in dev mode the request is submitted as it is; otherwise it is
  submitted under \<^verbatim>\<open>runSensitive\<close>, which decides what error the caller sees. The request
  is typed, so the assertion of its shape is not modelled.
\<close>

definition submitRequest ::
  "world \<Rightarrow> KeyringRequest \<Rightarrow> keyring \<Rightarrow> (error + SubmitRequestResponse) \<times> keyring" where
  "submitRequest W kr st =
     (if dev W then asyncSubmitRequest W kr st
      else (case asyncSubmitRequest W kr st of
              (Inl e, st1) \<Rightarrow> (Inl (runSensitive W e), st1)
            | (Inr r, st1) \<Rightarrow> (Inr r, st1)))"

section \<open>The protocol clients\<close>

subsection \<open>The access-token cache\<close>

text \<open>
  Modelled from the spec: the class \<^verbatim>\<open>SimpleCache\<close> (lib/simple-cache) is not among the
  sources. An entry holds a value and the time it was stored; it exists once it has been
  set, and it is valid for an age while the clock is before the time it was stored plus
  that age (``only trusted while \<^verbatim>\<open>now < issuedAt + ttl\<close>'').
\<close>

record CacheEntry =
  results :: "string option"
  timestamp :: int

type_synonym SimpleCache = "string \<rightharpoonup> CacheEntry"

definition cacheExists :: "SimpleCache \<Rightarrow> string \<Rightarrow> bool" where
  "cacheExists c key = (c key \<noteq> None)"

definition cacheValid :: "int \<Rightarrow> SimpleCache \<Rightarrow> string \<Rightarrow> int \<Rightarrow> bool" where
  "cacheValid clock c key maxCacheAge =
     (case c key of None \<Rightarrow> False | Some entry \<Rightarrow> clock < timestamp entry + maxCacheAge)"

definition getCache :: "SimpleCache \<Rightarrow> string \<Rightarrow> string option" where
  "getCache c key = (case c key of None \<Rightarrow> None | Some entry \<Rightarrow> results entry)"

definition setCache :: "int \<Rightarrow> SimpleCache \<Rightarrow> string \<Rightarrow> string option \<Rightarrow> SimpleCache" where
  "setCache clock c key v = c(key \<mapsto> \<lparr>results = v, timestamp = clock\<rparr>)"

subsection \<open>The refresh call and its answer\<close>

text \<open>
  The body of the token response as \<^verbatim>\<open>getAccessToken\<close> reads it. The fields are typed as the
  source casts them (\<^verbatim>\<open>as string\<close>); \<open>None\<close> is a field that is absent (or null). A
  value is truthy in JavaScript when it is a non-empty string or a number other than 0.
\<close>

record ResponseJson =
  body_url :: "string option"
  body_message :: "string option"
  expires_in :: "int option"
  access_token :: "string option"
  refresh_token :: "string option"

text \<open>
  What \<^verbatim>\<open>fetch\<close> and \<^verbatim>\<open>response.json()\<close> give: the call fails, or there is a response with a
  status and a body, which is \<open>None\<close> when it is not JSON (\<^verbatim>\<open>response.json()\<close> throws).
  \<^verbatim>\<open>response.ok\<close> is true for the statuses 200 to 299.
\<close>

datatype FetchResult = FetchFailed string | Response nat "ResponseJson option"

datatype RequestBody =
    FormUrlEncoded "(string \<times> string) list"
  | JsonStringified "(string \<times> string) list"

record FetchRequest =
  fetch_url :: string
  fetch_method :: string
  fetch_contentType :: string
  fetch_body :: RequestBody

definition response_ok :: "nat \<Rightarrow> bool" where
  "response_ok status = (200 \<le> status \<and> status \<le> 299)"

text \<open>
  The JavaScript test \<^verbatim>\<open>if (x)\<close> on a string field: \<open>Some s\<close> when the field holds the
  non-empty string \<open>s\<close>, and \<open>None\<close> when it is absent or empty.
\<close>

definition truthy :: "string option \<Rightarrow> string option" where
  "truthy v = (case v of None \<Rightarrow> None | Some s \<Rightarrow> if s = [] then None else Some s)"

record TokenExpiredEvent =
  expired_url :: string
  expired_oldRefreshToken :: string

datatype client_event =
    REFRESH_TOKEN_CHANGE_EVENT IRefreshTokenChangeEvent
  | TOKEN_EXPIRED_EVENT TokenExpiredEvent

text \<open>
  The errors thrown inside the \<^verbatim>\<open>try\<close> of \<^verbatim>\<open>getAccessToken\<close>; its \<^verbatim>\<open>catch\<close> wraps each of
  them as ``Error getting the Access Token: ...''.
\<close>

datatype token_error =
    RefreshTokenNoLongerValid
  | RequestFailedWithStatus nat "string option"
  | FetchRejected string
  | BodyNotJson

datatype client_error = ErrorGettingTheAccessToken token_error

record ProtocolClient =
  apiBaseUrl :: string
  refreshToken :: string
  client_refreshTokenUrl :: string
  cacheAge :: "int option"
  cache :: SimpleCache

text \<open>
  One run of \<^verbatim>\<open>getAccessToken\<close>: what it returns or throws, the client afterwards, the events
  emitted during the call and the requests sent to the refresh endpoint, both in order.
\<close>

record AccessTokenRun =
  returned :: "client_error + string option"
  client_after :: ProtocolClient
  events :: "client_event list"
  fetches :: "FetchRequest list"

text \<open>
  The part of \<^verbatim>\<open>getAccessToken\<close> after \<^verbatim>\<open>response.json()\<close>, which is the same text in both
  clients. First the success path: the cache age and the cached token are set; a truthy
  \<^verbatim>\<open>refresh_token\<close> that differs from the held one replaces it and is announced.
\<close>

definition handleSuccess ::
  "int \<Rightarrow> FetchRequest \<Rightarrow> ResponseJson \<Rightarrow> ProtocolClient \<Rightarrow> AccessTokenRun" where
  "handleSuccess clock req responseJson c =
     (let c1 = c\<lparr>cacheAge := expires_in responseJson,
                 cache := setCache clock (cache c) ''accessToken'' (access_token responseJson)\<rparr>;
          unchanged = \<lparr>returned = Inr (access_token responseJson), client_after = c1,
                       events = [], fetches = [req]\<rparr>
      in case truthy (refresh_token responseJson) of
           None \<Rightarrow> unchanged
         | Some newToken \<Rightarrow>
             if newToken \<noteq> refreshToken c
             then \<lparr>returned = Inr (access_token responseJson),
                   client_after = c1\<lparr>refreshToken := newToken\<rparr>,
                   events = [REFRESH_TOKEN_CHANGE_EVENT
                               \<lparr>apiUrl = apiBaseUrl c, oldRefreshToken = refreshToken c,
                                newRefreshToken = newToken\<rparr>],
                   fetches = [req]\<rparr>
             else unchanged)"

text \<open>
  Status 401 with a truthy \<^verbatim>\<open>url\<close>: the event carries the SHA-256 digest of the old
  refresh token followed by the URL, and the call throws. \<open>sha256\<close> is
  \<^verbatim>\<open>crypto.createHash('sha256').update(...).digest('hex')\<close>. Any other status that is not
  ok throws as well.
\<close>

definition handleResponse ::
  "(string \<Rightarrow> string) \<Rightarrow> int \<Rightarrow> FetchRequest \<Rightarrow> nat \<Rightarrow> ResponseJson \<Rightarrow> ProtocolClient \<Rightarrow> AccessTokenRun" where
  "handleResponse sha256 clock req status responseJson c =
     (case (if status = 401 then truthy (body_url responseJson) else None) of
        Some u \<Rightarrow>
          \<lparr>returned = Inl (ErrorGettingTheAccessToken RefreshTokenNoLongerValid),
           client_after = c,
           events = [TOKEN_EXPIRED_EVENT
                       \<lparr>expired_url = u, expired_oldRefreshToken = sha256 (refreshToken c @ u)\<rparr>],
           fetches = [req]\<rparr>
      | None \<Rightarrow>
          if \<not> response_ok status
          then \<lparr>returned = Inl (ErrorGettingTheAccessToken
                                   (RequestFailedWithStatus status (body_message responseJson))),
                client_after = c, events = [], fetches = [req]\<rparr>
          else handleSuccess clock req responseJson c)"

definition failedRun :: "token_error \<Rightarrow> FetchRequest \<Rightarrow> ProtocolClient \<Rightarrow> AccessTokenRun" where
  "failedRun e req c =
     \<lparr>returned = Inl (ErrorGettingTheAccessToken e), client_after = c, events = [],
      fetches = [req]\<rparr>"

text \<open>
  The test at the head of \<^verbatim>\<open>getAccessToken\<close>: the cache age is truthy, the entry exists and
  is valid for that age.
\<close>

definition cachedToken :: "int \<Rightarrow> ProtocolClient \<Rightarrow> bool" where
  "cachedToken clock c =
     (case cacheAge c of
        None \<Rightarrow> False
      | Some age \<Rightarrow> age \<noteq> 0 \<and> cacheExists (cache c) ''accessToken'' \<and>
                     cacheValid clock (cache c) ''accessToken'' age)"

definition refreshAndHandle ::
  "(string \<Rightarrow> string) \<Rightarrow> (FetchRequest \<Rightarrow> FetchResult) \<Rightarrow> int \<Rightarrow> FetchRequest \<Rightarrow> ProtocolClient \<Rightarrow>
     AccessTokenRun" where
  "refreshAndHandle sha256 fetch clock req c =
     (case fetch req of
        FetchFailed m \<Rightarrow> failedRun (FetchRejected m) req c
      | Response status None \<Rightarrow> failedRun BodyNotJson req c
      | Response status (Some responseJson) \<Rightarrow>
          handleResponse sha256 clock req status responseJson c)"

text \<open>\<^verbatim>\<open>ECA1Client.getAccessToken\<close>: the refresh token goes out in a form-encoded body.\<close>

definition ECA1Client_request :: "ProtocolClient \<Rightarrow> FetchRequest" where
  "ECA1Client_request c =
     \<lparr>fetch_url = client_refreshTokenUrl c, fetch_method = ''POST'',
      fetch_contentType = ''application/x-www-form-urlencoded'',
      fetch_body = FormUrlEncoded [(''grant_type'', ''refresh_token''),
                                   (''refresh_token'', refreshToken c)]\<rparr>"

definition ECA1Client_getAccessToken ::
  "(string \<Rightarrow> string) \<Rightarrow> (FetchRequest \<Rightarrow> FetchResult) \<Rightarrow> int \<Rightarrow> ProtocolClient \<Rightarrow> AccessTokenRun" where
  "ECA1Client_getAccessToken sha256 fetch clock c =
     (if cachedToken clock c
      then \<lparr>returned = Inr (getCache (cache c) ''accessToken''), client_after = c,
            events = [], fetches = []\<rparr>
      else refreshAndHandle sha256 fetch clock (ECA1Client_request c) c)"

text \<open>\<^verbatim>\<open>ECA3Client.getAccessToken\<close>: the refresh token goes out in a JSON body.\<close>

definition ECA3Client_request :: "ProtocolClient \<Rightarrow> FetchRequest" where
  "ECA3Client_request c =
     \<lparr>fetch_url = client_refreshTokenUrl c, fetch_method = ''POST'',
      fetch_contentType = ''application/json'',
      fetch_body = JsonStringified [(''grant_type'', ''refresh_token''),
                                    (''refresh_token'', refreshToken c)]\<rparr>"

definition ECA3Client_getAccessToken ::
  "(string \<Rightarrow> string) \<Rightarrow> (FetchRequest \<Rightarrow> FetchResult) \<Rightarrow> int \<Rightarrow> ProtocolClient \<Rightarrow> AccessTokenRun" where
  "ECA3Client_getAccessToken sha256 fetch clock c =
     (if cachedToken clock c
      then \<lparr>returned = Inr (getCache (cache c) ''accessToken''), client_after = c,
            events = [], fetches = []\<rparr>
      else refreshAndHandle sha256 fetch clock (ECA3Client_request c) c)"

text \<open>
  The allow-list of lib/custodian-types/custodianMetadata.ts, in its order, with the three
  fields \<^verbatim>\<open>createAccount\<close> reads.
\<close>

definition custodianMetadata_table :: "CustodianMetadata list" where
  "custodianMetadata_table =
     [
      \<lparr>md_apiBaseUrl = ''https://app.bitgo-test.com/defi/v2'', md_name = ''bitgo-test'',
       md_custodianPublishesTransaction = True\<rparr>,
      \<lparr>md_apiBaseUrl = ''https://app.bitgo.com/defi/v2'', md_name = ''bitgo-prod'',
       md_custodianPublishesTransaction = True\<rparr>,
      \<lparr>md_apiBaseUrl = ''https://api.mycactus.com/custody/v1/mmi-api'', md_name = ''cactus'',
       md_custodianPublishesTransaction = True\<rparr>,
      \<lparr>md_apiBaseUrl = ''http://localhost:8090'', md_name = ''gk8-prod'',
       md_custodianPublishesTransaction = True\<rparr>,
      \<lparr>md_apiBaseUrl = ''http://localhost:8090'', md_name = ''gk8-eca3-prod'',
       md_custodianPublishesTransaction = True\<rparr>,
      \<lparr>md_apiBaseUrl = ''https://safe-mmi.staging.gnosisdev.com/api'', md_name = ''gnosis-safe-dev'',
       md_custodianPublishesTransaction = True\<rparr>,
      \<lparr>md_apiBaseUrl = ''https://safe-mmi.safe.global/api'', md_name = ''safe-prod'',
       md_custodianPublishesTransaction = True\<rparr>,
      \<lparr>md_apiBaseUrl = ''https://safe-mmi.staging.5afe.dev/api'', md_name = ''gnosis-safe-staging'',
       md_custodianPublishesTransaction = True\<rparr>,
      \<lparr>md_apiBaseUrl = ''https://api.mpcvault.com/mmi'', md_name = ''mpcvault-prod'',
       md_custodianPublishesTransaction = True\<rparr>,
      \<lparr>md_apiBaseUrl = ''https://api-preprod.uat.zodia.io'', md_name = ''zodia-preprod'',
       md_custodianPublishesTransaction = True\<rparr>,
      \<lparr>md_apiBaseUrl = ''https://mmi.fireblocks.io'', md_name = ''fireblocks-prod'',
       md_custodianPublishesTransaction = True\<rparr>,
      \<lparr>md_apiBaseUrl = ''https://sandbox.fireblocks.io/'', md_name = ''fireblocks-sandbox'',
       md_custodianPublishesTransaction = True\<rparr>,
      \<lparr>md_apiBaseUrl = ''https://eu-console.fireblocks.io/'', md_name = ''fireblocks-eu'',
       md_custodianPublishesTransaction = True\<rparr>,
      \<lparr>md_apiBaseUrl = ''https://eu2-console.fireblocks.io/'', md_name = ''fireblocks-eu2'',
       md_custodianPublishesTransaction = True\<rparr>,
      \<lparr>md_apiBaseUrl = ''https://local.waterballoons.xyz:4200'', md_name = ''waterballoons-local'',
       md_custodianPublishesTransaction = True\<rparr>,
      \<lparr>md_apiBaseUrl = ''https://dev4-console-api.waterballoons.xyz'', md_name = ''waterballoons-dev10'',
       md_custodianPublishesTransaction = True\<rparr>,
      \<lparr>md_apiBaseUrl = ''https://dev4-console-api.waterballoons.xyz'', md_name = ''waterballoons-dev4'',
       md_custodianPublishesTransaction = True\<rparr>,
      \<lparr>md_apiBaseUrl = ''https://zapi.custody.zodia.io'', md_name = ''zodia-prod'',
       md_custodianPublishesTransaction = True\<rparr>,
      \<lparr>md_apiBaseUrl = ''https://api.sit.zodia.io'', md_name = ''zodia-sit'',
       md_custodianPublishesTransaction = True\<rparr>,
      \<lparr>md_apiBaseUrl = ''https://api-qa.qa.zodia.io'', md_name = ''zodia-qa'',
       md_custodianPublishesTransaction = True\<rparr>,
      \<lparr>md_apiBaseUrl = ''http://localhost:8090'', md_name = ''gk8-eca3-dev'',
       md_custodianPublishesTransaction = True\<rparr>,
      \<lparr>md_apiBaseUrl = ''https://api.dev.mpcvault.com/mmi'', md_name = ''mpcvault-dev'',
       md_custodianPublishesTransaction = False\<rparr>,
      \<lparr>md_apiBaseUrl = ''https://gamma.signer.cubist.dev/v0/mmi'', md_name = ''cubist-gamma'',
       md_custodianPublishesTransaction = False\<rparr>,
      \<lparr>md_apiBaseUrl = ''https://beta.signer.cubist.dev/v0/mmi'', md_name = ''cubist-beta'',
       md_custodianPublishesTransaction = False\<rparr>,
      \<lparr>md_apiBaseUrl = ''https://dg5z0qnzb9s65.cloudfront.net/v0/mmi'', md_name = ''cubist-test'',
       md_custodianPublishesTransaction = False\<rparr>,
      \<lparr>md_apiBaseUrl = ''https://prod.signer.cubist.dev/v0/mmi'', md_name = ''cubist-prod'',
       md_custodianPublishesTransaction = False\<rparr>,
      \<lparr>md_apiBaseUrl = ''http://localhost:3330'', md_name = ''local-dev'',
       md_custodianPublishesTransaction = False\<rparr>
     ]"

section \<open>Concrete inputs\<close>

text \<open>
  The inputs at which the theorems below are evaluated. They follow the fixtures of
  keyring.test.ts: the addresses, the tokens and the shape of the wallets are the test's.
\<close>

definition sample_details :: "string \<Rightarrow> string \<Rightarrow> OnBoardingRpcRequest" where
  "sample_details t u =
     \<lparr>token = t, custodianApiUrl = u, custodianType = ECA3,
      refreshTokenUrl = ''https://refresh.example.com'', custodianEnvironment = ''test'',
      custodianDisplayName = ''Test Custodian''\<rparr>"

definition sample_account :: "string \<Rightarrow> string \<Rightarrow> string list \<Rightarrow> CustodialKeyringAccount" where
  "sample_account i a ms =
     \<lparr>acct_id = i, address = a, methods = ms,
      options = \<lparr>custodian = \<lparr>environmentName = ''test-custodian'',
                               displayName = ''Test Custodian'', deferPublication = False,
                               importOrigin = ''test-origin''\<rparr>,
                 accountName = Some ''Test Account''\<rparr>,
      account_type = ''eip155:eoa''\<rparr>"

definition sample_wallet :: "string \<Rightarrow> string \<Rightarrow> string \<Rightarrow> string \<Rightarrow> Wallet" where
  "sample_wallet i a t u =
     \<lparr>account = sample_account i a [''personal_sign'', ''eth_signTransaction'', ''eth_sign''],
      details = sample_details t u\<rparr>"

definition empty_keyring :: keyring where
  "empty_keyring =
     \<lparr>wallets = [], requests = [], custodianApi = Map.empty, heap = [], calls = [],
      emitted = [], rendered = []\<rparr>"

text \<open>Three wallets: two share the token T and the API URL U, the third has T and V.\<close>

definition three_wallets :: keyring where
  "three_wallets =
     empty_keyring\<lparr>wallets := [sample_wallet ''1'' ''0x123'' ''T'' ''U'',
                               sample_wallet ''2'' ''0x456'' ''T'' ''U'',
                               sample_wallet ''3'' ''0x789'' ''T'' ''V'']\<rparr>"

definition rotation_T_to_N :: IRefreshTokenChangeEvent where
  "rotation_T_to_N = \<lparr>apiUrl = ''U'', oldRefreshToken = ''T'', newRefreshToken = ''N''\<rparr>"

text \<open>
  The address of the test ``should normalize address'', in lower case and in its EIP-55
  spelling, and a digest whose hexadecimal digits are at least 8 exactly where that spelling
  has a capital letter.
\<close>

definition lower_address :: string where
  "lower_address = ''0xf7bde8609231033c69e502c08f85153f8a1548f2''"

definition upper_address :: string where
  "upper_address = ''0xF7BDE8609231033C69E502C08F85153F8A1548F2''"

definition checksum_address :: string where
  "checksum_address = ''0xf7bDe8609231033c69E502C08f85153f8A1548F2''"

definition sample_digest :: "string \<Rightarrow> nat list" where
  "sample_digest s =
     [0, 0, 0, 8, 0, 0, 0, 0, 0, 0, 0, 0, 0, 0, 0, 0, 0, 0, 8, 0,
      0, 0, 8, 0, 0, 0, 0, 0, 0, 0, 0, 0, 0, 8, 0, 0, 0, 0, 8, 0]"

text \<open>
  A custodian that signs personal messages and creates transactions, and knows no deep
  links; a snap keyring that accepts every event.
\<close>

definition sample_world :: world where
  "sample_world =
     \<lparr>dev = False, now = 1700000000000, uuid = ''3ae4b404-8cdb-4c5c-bcd9-ec904f2a9876'',
      custodianMetadata = custodianMetadata_table,
      keccak256 = sample_digest,
      emitSnapKeyringEvent = (\<lambda>ev. None),
      runSensitive = (\<lambda>e. Thrown ''An unexpected error occurred''),
      signPersonalMessage = (\<lambda>api from msg. Inr \<lparr>details_id = ''msg-1'', details_status = ''created''\<rparr>),
      signTypedData = (\<lambda>api from d version. Inl ''typed data is not supported''),
      createTransactionPayload = (\<lambda>tx. Inr (tx_fields tx)),
      createTransaction = (\<lambda>api payload chainId defer.
         Inr \<lparr>custodianTransactionId = ''tx-1'', transactionStatus = ''created''\<rparr>),
      getTransactionLink = (\<lambda>api i. Inl ''no transaction link''),
      getSignedMessageLink = (\<lambda>api i. Inl ''no signed message link'')\<rparr>"

text \<open>
  A keyring with one wallet stored under the lower-case address, and an API object for it
  in the registry under the normalised address.
\<close>

definition stale_keyring :: keyring where
  "stale_keyring =
     empty_keyring\<lparr>wallets := [sample_wallet ''1'' lower_address ''T'' ''U''],
                   custodianApi := [checksum_address \<mapsto> 0],
                   heap := [newCustodianApi (sample_details ''T'' ''U'')]\<rparr>"

text \<open>A keyring with one wallet stored under the normalised address, and the same registry.\<close>

definition cached_keyring :: keyring where
  "cached_keyring =
     empty_keyring\<lparr>wallets := [sample_wallet ''1'' checksum_address ''T'' ''U''],
                   custodianApi := [checksum_address \<mapsto> 0],
                   heap := [newCustodianApi (sample_details ''T'' ''U'')]\<rparr>"

text \<open>The wallet of the submission tests, and a personal-sign request for it.\<close>

definition one_wallet :: keyring where
  "one_wallet = empty_keyring\<lparr>wallets := [sample_wallet ''acc-1'' ''0x123'' ''mock-token'' ''U'']\<rparr>"

definition sample_request :: "string \<Rightarrow> string \<Rightarrow> Json list \<Rightarrow> KeyringRequest" where
  "sample_request acct m ps =
     \<lparr>req_id = ''1cf42f0b-2512-4b6b-b5a5-138d9cbfa0e1'', req_scope = ''scope-1'',
      req_account = acct, request = \<lparr>rpc_method = m, rpc_params = Some ps\<rparr>\<rparr>"

definition sample_options :: "string \<Rightarrow> string \<Rightarrow> CreateAccountOptions" where
  "sample_options a u =
     \<lparr>ca_address = a, ca_name = Some ''Test Account'', ca_details = sample_details ''test-token'' u,
      ca_origin = ''test-origin''\<rparr>"

text \<open>A client before its first refresh, and one holding a cached access token.\<close>

definition fresh_client :: ProtocolClient where
  "fresh_client =
     \<lparr>apiBaseUrl = ''U'', refreshToken = ''T'',
      client_refreshTokenUrl = ''https://refresh.example.com'', cacheAge = None,
      cache = Map.empty\<rparr>"

definition warm_client :: ProtocolClient where
  "warm_client =
     fresh_client\<lparr>cacheAge := Some 100,
                  cache := setCache 1000 Map.empty ''accessToken'' (Some ''A'')\<rparr>"

definition sample_sha256 :: "string \<Rightarrow> string" where
  "sample_sha256 s = ''sha256('' @ s @ '')''"

definition token_response :: "string option \<Rightarrow> ResponseJson" where
  "token_response r =
     \<lparr>body_url = None, body_message = None, expires_in = Some 3600,
      access_token = Some ''A2'', refresh_token = r\<rparr>"

definition expired_response :: "string option \<Rightarrow> ResponseJson" where
  "expired_response u =
     \<lparr>body_url = u, body_message = Some ''unauthorized'', expires_in = None,
      access_token = None, refresh_token = None\<rparr>"

section \<open>The token-changed handler: rotation fan-out\<close>

lemma heap_updateOneWallet [simp]: "heap (updateOneWallet payload w st) = heap st"
  by (simp add: updateOneWallet_def updateWalletDetails_def Let_def)

lemma heap_fold_updateOneWallet [simp]: "heap (fold (updateOneWallet payload) us st) = heap st"
  by (induction us arbitrary: st) simp_all

lemma custodianApi_updateOneWallet:
  "custodianApi (updateOneWallet payload w st) = (custodianApi st)(address (account w) := None)"
  by (simp add: updateOneWallet_def updateWalletDetails_def Let_def)

lemma custodianApi_fold_updateOneWallet:
  "custodianApi (fold (updateOneWallet payload) us st) k =
     (if k \<in> (\<lambda>w. address (account w)) ` set us then None else custodianApi st k)"
  by (induction us arbitrary: st) (auto simp: custodianApi_updateOneWallet)

lemma wallets_updateOneWallet:
  "wallets (updateOneWallet payload u st) =
     map (\<lambda>w. if acct_id (account w) = acct_id (account u)
              then w\<lparr>details := (details u)\<lparr>token := newRefreshToken payload\<rparr>\<rparr> else w) (wallets st)"
  by (simp add: updateOneWallet_def updateWalletDetails_def Let_def)

lemma same_id_same_wallet:
  assumes "distinct (map (\<lambda>w. acct_id (account w)) ws)" "w \<in> set ws" "u \<in> set ws"
    and "acct_id (account w) = acct_id (account u)"
  shows "w = u"
  using assms by (meson distinct_map inj_onD)

lemma wallets_fold_updateOneWallet:
  assumes "distinct (map (\<lambda>w. acct_id (account w)) ws)" and "set us \<subseteq> set ws"
    and "wallets st = map (\<lambda>w. if w \<in> A then rotated payload w else w) ws"
  shows "wallets (fold (updateOneWallet payload) us st) =
           map (\<lambda>w. if w \<in> A \<union> set us then rotated payload w else w) ws"
  using assms(2,3)
proof (induction us arbitrary: st A)
  case Nil
  then show ?case by simp
next
  case (Cons u us)
  have u_in: "u \<in> set ws" using Cons.prems(1) by simp
  have step: "wallets (updateOneWallet payload u st) =
                map (\<lambda>w. if w \<in> insert u A then rotated payload w else w) ws"
    unfolding wallets_updateOneWallet Cons.prems(2) map_map
  proof (rule map_cong [OF refl])
    fix w assume w_in: "w \<in> set ws"
    have same: "acct_id (account w) = acct_id (account u) \<longleftrightarrow> w = u"
      using same_id_same_wallet [OF assms(1) w_in u_in] by auto
    show "((\<lambda>w. if acct_id (account w) = acct_id (account u)
                then w\<lparr>details := (details u)\<lparr>token := newRefreshToken payload\<rparr>\<rparr> else w) \<circ>
           (\<lambda>w. if w \<in> A then rotated payload w else w)) w =
          (if w \<in> insert u A then rotated payload w else w)"
      using same by (auto simp: rotated_def)
  qed
  have "wallets (fold (updateOneWallet payload) us (updateOneWallet payload u st)) =
          map (\<lambda>w. if w \<in> insert u A \<union> set us then rotated payload w else w) ws"
    using Cons.prems(1) by (intro Cons.IH [OF _ step]) simp
  then show ?case by simp
qed

text \<open>
  C2. For every wallet list (the state manager keys wallets by account id, so the ids are
  distinct) and every event, the handler leaves the list of wallets as it was, except that
  exactly the wallets whose token is the event's old token and whose API URL is the
  event's API URL now hold the new token; every other wallet is unchanged.
\<close>

theorem C2_rotation_fan_out:
  assumes "distinct (map (\<lambda>w. acct_id (account w)) (wallets st))"
  shows "wallets (handleTokenChangedEvent payload st) =
           map (\<lambda>w. if token (details w) = oldRefreshToken payload \<and>
                        custodianApiUrl (details w) = apiUrl payload
                     then w\<lparr>details := (details w)\<lparr>token := newRefreshToken payload\<rparr>\<rparr>
                     else w) (wallets st)"
proof -
  have "wallets (fold (updateOneWallet payload) (filter (tokenMatches payload) (wallets st)) st) =
          map (\<lambda>w. if w \<in> {} \<union> set (filter (tokenMatches payload) (wallets st))
                   then rotated payload w else w) (wallets st)"
    by (rule wallets_fold_updateOneWallet [OF assms]) simp_all
  also have "\<dots> = map (\<lambda>w. if tokenMatches payload w then rotated payload w else w) (wallets st)"
    by (rule map_cong) simp_all
  finally show ?thesis
    by (simp add: handleTokenChangedEvent_def listWallets_def Let_def tokenMatches_def rotated_def)
qed


theorem C2_rotation_fan_out_witness:
  "distinct (map (\<lambda>w. acct_id (account w)) (wallets three_wallets)) \<and>
   map (\<lambda>w. (acct_id (account w), token (details w), custodianApiUrl (details w)))
       (wallets (handleTokenChangedEvent rotation_T_to_N three_wallets)) =
     [(''1'', ''N'', ''U''), (''2'', ''N'', ''U''), (''3'', ''T'', ''V'')]"
proof -
  have d: "distinct (map (\<lambda>w. acct_id (account w)) (wallets three_wallets))"
    by (simp add: three_wallets_def empty_keyring_def sample_wallet_def sample_account_def)
  show ?thesis
    using d C2_rotation_fan_out [OF d, of rotation_T_to_N]
    by (simp add: three_wallets_def empty_keyring_def sample_wallet_def sample_account_def
        sample_details_def rotation_T_to_N_def)
qed

section \<open>The token-changed handler: the registry\<close>

lemma custodianApi_handleTokenChangedEvent:
  "custodianApi (handleTokenChangedEvent payload st) k =
     (if k \<in> (\<lambda>w. address (account w)) ` set (filter (tokenMatches payload) (wallets st))
      then None else custodianApi st k)"
  by (simp add: handleTokenChangedEvent_def listWallets_def Let_def
      custodianApi_fold_updateOneWallet)

text \<open>The handler removes the registry entry under the address each matching wallet is
  stored with, and no other entry.\<close>

lemma handleTokenChangedEvent_deletes_stored_address:
  assumes "w \<in> set (wallets st)" and "tokenMatches payload w"
  shows "custodianApi (handleTokenChangedEvent payload st) (address (account w)) = None"
  using assms by (auto simp: custodianApi_handleTokenChangedEvent)

lemma sample_checksums:
  "toChecksumAddress sample_digest lower_address = Inr checksum_address"
  "toChecksumAddress sample_digest upper_address = Inr checksum_address"
  "toChecksumAddress sample_digest checksum_address = Inr checksum_address"
  by (simp_all add: toChecksumAddress_def isHexString_def lower_address_def upper_address_def
      checksum_address_def toLowerCase_def stripHexPrefix_def toLowerCase_char_def
      toUpperCase_char_def sample_digest_def)

lemma sample_addresses_differ: "lower_address \<noteq> checksum_address"
  by (simp add: lower_address_def checksum_address_def)

text \<open>
  C1 at a wallet stored under an address that is not in checksum form. The wallet matches
  the event and is given the new token, but the handler deletes the key
  \<^verbatim>\<open>wallet.account.address\<close>, which is not the key the registry holds the wallet's API
  object under: the entry stays, and the next \<^verbatim>\<open>getCustodianApiForAddress\<close> for the wallet's
  address returns the object constructed with the old token, leaving the state as it is.
\<close>

theorem C1_entry_kept_for_unnormalised_address:
  "filter (tokenMatches rotation_T_to_N) (wallets stale_keyring) = wallets stale_keyring \<and>
   map (\<lambda>w. token (details w)) (wallets (handleTokenChangedEvent rotation_T_to_N stale_keyring)) = [''N''] \<and>
   toChecksumAddress (keccak256 sample_world) lower_address = Inr checksum_address \<and>
   custodianApi (handleTokenChangedEvent rotation_T_to_N stale_keyring) checksum_address = Some 0 \<and>
   getCustodianApiForAddress sample_world lower_address
       (handleTokenChangedEvent rotation_T_to_N stale_keyring) =
     (Inr 0, handleTokenChangedEvent rotation_T_to_N stale_keyring) \<and>
   map api_refreshToken (heap (handleTokenChangedEvent rotation_T_to_N stale_keyring)) = [''T'']"
proof -
  let ?st = "handleTokenChangedEvent rotation_T_to_N stale_keyring"
  have m: "filter (tokenMatches rotation_T_to_N) (wallets stale_keyring) = wallets stale_keyring"
    by (simp add: stale_keyring_def empty_keyring_def sample_wallet_def sample_details_def
        tokenMatches_def rotation_T_to_N_def)
  have w: "map (\<lambda>w. token (details w)) (wallets ?st) = [''N'']"
    by (simp add: handleTokenChangedEvent_def listWallets_def m)
       (simp add: stale_keyring_def empty_keyring_def updateOneWallet_def
        updateWalletDetails_def rotation_T_to_N_def Let_def)
  have k: "toChecksumAddress (keccak256 sample_world) lower_address = Inr checksum_address"
    by (simp add: sample_world_def sample_checksums)
  have c: "custodianApi ?st checksum_address = Some 0"
    unfolding custodianApi_handleTokenChangedEvent m
    using sample_addresses_differ
    by (simp add: stale_keyring_def empty_keyring_def sample_wallet_def sample_account_def)
  have g: "getCustodianApiForAddress sample_world lower_address ?st = (Inr 0, ?st)"
    by (simp add: getCustodianApiForAddress_def k c)
  have h: "map api_refreshToken (heap ?st) = [''T'']"
    by (simp add: handleTokenChangedEvent_def listWallets_def Let_def stale_keyring_def
        empty_keyring_def newCustodianApi_def sample_details_def)
  show ?thesis using m w k c g h by simp
qed

end
